theory Spec2Isabelle
  imports Main "HOL-Library.Sublist"
begin

section \<open>Python string and path primitives used by liefldd.py\<close>

text \<open>
  Python strings are modelled as \<open>string\<close>. \<open>s.startswith(p)\<close> is \<open>prefix p s\<close>,
  \<open>s.endswith(p)\<close> is \<open>suffix p s\<close> and \<open>p in s\<close> is \<open>sublist p s\<close>.
\<close>

text \<open>
  \<open>s.replace(old, new)\<close>: every non-overlapping occurrence of \<open>old\<close>, scanning from the
  left, is replaced by \<open>new\<close>. With an empty \<open>old\<close> Python puts \<open>new\<close> before every
  character and at the end.
\<close>

function str_replace :: "string \<Rightarrow> string \<Rightarrow> string \<Rightarrow> string" where
  "str_replace old new [] = (if old = [] then new else [])"
| "str_replace old new (c # cs) =
     (if old = [] then new @ c # str_replace old new cs
      else if prefix old (c # cs) then new @ str_replace old new (drop (length old) (c # cs))
      else c # str_replace old new cs)"
  by pat_completeness auto
termination
  by (relation "measure (\<lambda>(old, new, s). length s)") auto

text \<open>\<open>s.split(sep)\<close> for a one-character separator; the result is never empty.\<close>

fun str_split :: "char \<Rightarrow> string \<Rightarrow> string list" where
  "str_split sep [] = [[]]"
| "str_split sep (c # cs) =
     (if c = sep then [] # str_split sep cs
      else (case str_split sep cs of [] \<Rightarrow> [[c]] | w # ws \<Rightarrow> (c # w) # ws))"

text \<open>\<open>s.rstrip(c)\<close> for a one-character set.\<close>

definition str_rstrip :: "char \<Rightarrow> string \<Rightarrow> string" where
  "str_rstrip c s = rev (dropWhile (\<lambda>x. x = c) (rev s))"

text \<open>\<open>sep.join(parts)\<close>.\<close>

fun str_join :: "string \<Rightarrow> string list \<Rightarrow> string" where
  "str_join sep [] = []"
| "str_join sep [p] = p"
| "str_join sep (p # q # ps) = p @ sep @ str_join sep (q # ps)"

text \<open>
  The functions of \<open>os.path\<close> are those of \<open>posixpath\<close>: \<open>os.sep\<close> is the slash,
  \<open>join\<close> restarts at a component that begins with a slash, and \<open>dirname\<close> cuts at
  the last slash and strips the trailing slashes of a head that is not all slashes.
\<close>

definition os_sep :: string where
  "os_sep = ''/''"

definition join2 :: "string \<Rightarrow> string \<Rightarrow> string" where
  "join2 path b =
     (if prefix ''/'' b then b
      else if path = [] \<or> suffix ''/'' path then path @ b
      else path @ ''/'' @ b)"

definition join :: "string \<Rightarrow> string list \<Rightarrow> string" where
  "join a p = foldl join2 a p"

definition dirname :: "string \<Rightarrow> string" where
  "dirname p =
     (let head = rev (dropWhile (\<lambda>c. c \<noteq> CHR ''/'') (rev p))
      in if head \<noteq> [] \<and> head \<noteq> replicate (length head) (CHR ''/'')
         then str_rstrip (CHR ''/'') head else head)"

section \<open>The parsed binary, as LIEF hands it to liefldd.py\<close>

text \<open>
  \<open>lief.parse\<close> returns an ELF, a Mach-O or a PE binary object, or no object at all;
  \<open>binary.format\<close> of an object is one of the three formats.
\<close>

datatype exe_format = ELF | MACHO | PE

datatype elf_class = ELFCLASSNONE | CLASS32 | CLASS64

text \<open>
  A dynamic entry carries its tag and the attribute the source reads under that tag:
  \<open>e.runpath\<close>, \<open>e.rpath\<close>, \<open>e.name\<close> of a SONAME entry.
\<close>

datatype dynamic_entry =
    RUNPATH string
  | RPATH string
  | SONAME string
  | NEEDED string
  | OTHER_TAG

text \<open>
  A Mach-O load command: \<open>command.path\<close> of an \<open>LC_RPATH\<close>, \<open>command.name\<close> of an
  \<open>LC_ID_DYLIB\<close>.
\<close>

datatype load_command =
    LC_RPATH string
  | LC_ID_DYLIB string
  | LC_OTHER

text \<open>
  The attributes of a binary object that the source reads. \<open>type\<close> is the ELF class,
  \<open>is_dll\<close> is \<open>header.characteristics & HEADER_CHARACTERISTICS.DLL\<close>, \<open>libraries\<close> holds
  the names of the imported libraries, and \<open>ehdr\<close> is \<open>binary.ehdr.sz_ptr\<close> when the
  object has an \<open>ehdr\<close> attribute at all.
\<close>

record binary =
  format :: exe_format
  name :: string
  type :: elf_class
  libraries :: "string list"
  dynamic_entries :: "dynamic_entry list"
  has_rpath :: bool
  commands :: "load_command list"
  is_dll :: bool
  ehdr :: "nat option"

datatype error = AttributeError | KeyError | LiefError

text \<open>
  A call of \<open>lief.parse\<close> raises, or returns a binary object or \<open>None\<close>.
\<close>

datatype parse_result = Raises | Returns "binary option"

text \<open>
  The file system and the parser, as the source sees them: \<open>os.path.exists\<close> and
  \<open>lief.parse\<close>.
\<close>

record world =
  path_exists :: "string \<Rightarrow> bool"
  lief_parse :: "string \<Rightarrow> parse_result"

text \<open>
  The argument \<open>file\<close> of the functions that take a file name or a loaded binary: a
  string, or an object that came from \<open>lief.parse\<close> (a binary or \<open>None\<close>).
\<close>

datatype file_arg = Filename string | Loaded "binary option"

text \<open>
  What \<open>ensure_binary\<close> returns: the argument itself when it is no string, the empty list
  for a path that does not exist, the parser's result, or \<open>None\<close> after an exception.
\<close>

datatype ensured = EmptyList | Object "binary option"

definition ensure_binary :: "world \<Rightarrow> file_arg \<Rightarrow> ensured" where
  "ensure_binary w file =
     (case file of
        Loaded b \<Rightarrow> Object b
      | Filename f \<Rightarrow>
          if \<not> path_exists w f then EmptyList
          else (case lief_parse w f of
                  Raises \<Rightarrow> Object None
                | Returns b \<Rightarrow> Object b))"

definition codefile_type_liefldd :: "world \<Rightarrow> file_arg \<Rightarrow> string option" where
  "codefile_type_liefldd w file =
     (case ensure_binary w file of
        Object (Some binary) \<Rightarrow>
          (case format binary of
             PE \<Rightarrow> if is_dll binary then Some ''DLLfile'' else Some ''EXEfile''
           | MACHO \<Rightarrow> Some ''machofile''
           | ELF \<Rightarrow> Some ''elffile'')
      | _ \<Rightarrow> None)"

text \<open>
  The module binds \<open>codefile_type\<close> to \<open>codefile_type_liefldd\<close> when \<open>lief\<close> can be
  imported, which every function modelled here needs.
\<close>

definition codefile_type :: "world \<Rightarrow> file_arg \<Rightarrow> string option" where
  "codefile_type = codefile_type_liefldd"

function trim_sysroot :: "string \<Rightarrow> string" where
  "trim_sysroot sysroot =
     (if suffix ''/'' sysroot \<or> suffix [CHR 0x5C] sysroot
      then trim_sysroot (butlast sysroot) else sysroot)"
  by pat_completeness auto
termination
  by (relation "measure length") (auto simp: suffix_def)

section \<open>Token substitution\<close>

text \<open>
  \<open>to_os_varnames\<close>: the Mach-O branch substitutes; the ELF branch reads \<open>binary.ehdr\<close>
  and then calls \<open>input.replace\<close>, where \<open>input\<close> is Python's builtin function and not the
  parameter \<open>input_\<close>, so it raises \<open>AttributeError\<close> whether or not the object has an
  \<open>ehdr\<close>; there is no PE branch, so a PE binary falls off the end and the function
  returns \<open>None\<close>.
\<close>

definition to_os_varnames :: "binary \<Rightarrow> string \<Rightarrow> error + string option" where
  "to_os_varnames binary input' =
     (case format binary of
        MACHO \<Rightarrow>
          Inr (Some (str_replace ''$RPATH'' ''@rpath''
                (str_replace ''$EXEDIR'' ''@executable_path''
                  (str_replace ''$SELFDIR'' ''@loader_path'' input'))))
      | ELF \<Rightarrow>
          (case ehdr binary of
             None \<Rightarrow> Inl AttributeError
           | Some sz_ptr \<Rightarrow>
               (let libdir = (if sz_ptr = 8 then ''/lib64'' else ''/lib'')
                in Inl AttributeError))
      | PE \<Rightarrow> Inr None)"

definition from_os_varnames :: "binary \<Rightarrow> string \<Rightarrow> string" where
  "from_os_varnames binary input' =
     (case format binary of
        MACHO \<Rightarrow>
          str_replace ''@rpath'' ''$RPATH''
            (str_replace ''@executable_path'' ''$EXEDIR''
              (str_replace ''@loader_path'' ''$SELFDIR'' input'))
      | ELF \<Rightarrow>
          (let libdir = (if type binary = CLASS64 then ''/lib64'' else ''/lib'')
           in str_replace ''$LIB'' libdir (str_replace ''$ORIGIN'' ''$SELFDIR'' input'))
      | PE \<Rightarrow> input')"

section \<open>Search-path collection\<close>

definition get_path_dirs :: "string \<Rightarrow> string list" where
  "get_path_dirs prefix' =
     [join prefix' [''Library'', ''mingw-w64'', ''bin''],
      join prefix' [''Library'', ''usr'', ''bin''],
      join prefix' [''Library'', ''bin''],
      join prefix' [''Scripts''],
      join prefix' [''bin'']]"

text \<open>Python's truth value of a string that may be \<open>None\<close>.\<close>

fun truthy :: "string option \<Rightarrow> bool" where
  "truthy None = False"
| "truthy (Some s) = (s \<noteq> [])"

definition runpaths_of :: "dynamic_entry list \<Rightarrow> string list" where
  "runpaths_of es = List.map_filter (\<lambda>e. case e of RUNPATH s \<Rightarrow> Some s | _ \<Rightarrow> None) es"

definition rpaths_of :: "dynamic_entry list \<Rightarrow> string list" where
  "rpaths_of es = List.map_filter (\<lambda>e. case e of RPATH s \<Rightarrow> Some s | _ \<Rightarrow> None) es"

definition sonames_of :: "dynamic_entry list \<Rightarrow> string list" where
  "sonames_of es = List.map_filter (\<lambda>e. case e of SONAME s \<Rightarrow> Some s | _ \<Rightarrow> None) es"

definition lc_rpaths_of :: "load_command list \<Rightarrow> string list" where
  "lc_rpaths_of cs = List.map_filter (\<lambda>c. case c of LC_RPATH p \<Rightarrow> Some p | _ \<Rightarrow> None) cs"

definition id_dylibs_of :: "load_command list \<Rightarrow> string list" where
  "id_dylibs_of cs = List.map_filter (\<lambda>c. case c of LC_ID_DYLIB n \<Rightarrow> Some n | _ \<Rightarrow> None) cs"

definition get_rpaths :: "world \<Rightarrow> file_arg \<Rightarrow> string option \<Rightarrow> string \<Rightarrow> string \<Rightarrow> string list" where
  "get_rpaths w file exe_dirname envroot windows_root =
     (case ensure_binary w file of
        Object (Some binary) \<Rightarrow>
          (case format binary of
             PE \<Rightarrow>
               (case exe_dirname of
                  None \<Rightarrow> []
                | Some d \<Rightarrow>
                    if d = [] then []
                    else
                      map (from_os_varnames binary)
                        ([str_replace [CHR 0x5C] ''/'' d]
                         @ (if windows_root \<noteq> []
                            then [str_join ''/'' [windows_root, ''System32''], windows_root]
                            else [])
                         @ (if envroot \<noteq> [] then get_path_dirs envroot else [])))
           | MACHO \<Rightarrow>
               if has_rpath binary
               then map (from_os_varnames binary)
                      (map (str_rstrip (CHR ''/'')) (lc_rpaths_of (commands binary)))
               else []
           | ELF \<Rightarrow>
               if type binary = CLASS32 \<or> type binary = CLASS64
               then
                 (let rpaths_colons = runpaths_of (dynamic_entries binary);
                      rpaths_colons = (if length rpaths_colons = 0
                                       then rpaths_of (dynamic_entries binary)
                                       else rpaths_colons)
                  in map (from_os_varnames binary)
                       (concat (map (str_split (CHR '':'')) rpaths_colons)))
               else [])
      | _ \<Rightarrow> [])"

section \<open>Library references and the uniqueness key\<close>

text \<open>\<open>binary_name and l.endswith(binary_name)\<close>, for a \<open>binary_name\<close> that may be \<open>None\<close>.\<close>

fun ends_with_name :: "string option \<Rightarrow> string \<Rightarrow> bool" where
  "ends_with_name None l = False"
| "ends_with_name (Some n) l = (n \<noteq> [] \<and> suffix n l)"

definition get_libraries :: "world \<Rightarrow> file_arg \<Rightarrow> string list" where
  "get_libraries w file =
     (case ensure_binary w file of
        Object (Some binary) \<Rightarrow>
          if format binary = PE then libraries binary
          else
            (let binary_name =
                   (if format binary = MACHO \<and> has_rpath binary
                    then (case id_dylibs_of (commands binary) of
                            [] \<Rightarrow> None
                          | n # _ \<Rightarrow> Some n)
                    else None);
                 result = libraries binary
             in if format binary = MACHO
                then map (from_os_varnames binary)
                       (filter (\<lambda>l. \<not> ends_with_name binary_name l) result)
                else result)
      | _ \<Rightarrow> [])"

text \<open>
  \<open>get_uniqueness_key\<close> reads \<open>binary.format\<close> with no test of what \<open>ensure_binary\<close>
  returned: on \<open>None\<close> and on the empty list the attribute access raises.
\<close>

definition get_uniqueness_key :: "world \<Rightarrow> file_arg \<Rightarrow> error + string" where
  "get_uniqueness_key w file =
     (case ensure_binary w file of
        Object (Some binary) \<Rightarrow>
          if format binary = MACHO then Inr (name binary)
          else if format binary = ELF \<and> (type binary = CLASS32 \<or> type binary = CLASS64)
          then (case sonames_of (dynamic_entries binary) of
                  [] \<Rightarrow> Inr (name binary)
                | r # _ \<Rightarrow> Inr r)
          else Inr (name binary)
      | _ \<Rightarrow> Inl AttributeError)"

section \<open>Resolution of one reference\<close>

text \<open>
  The third component of the result is the value of
  \<open>exists and sysroot and resolved.startswith(sysroot)\<close>: \<open>False\<close> when the path does not
  exist, the empty string \<open>sysroot\<close> itself when the path exists and no sysroot is set,
  and the truth value of the prefix test otherwise.
\<close>

datatype pyval = PyBool bool | PyStr string

fun is_true :: "pyval \<Rightarrow> bool" where
  "is_true (PyBool b) = b"
| "is_true (PyStr s) = (s \<noteq> [])"

definition exists_sysroot_of :: "bool \<Rightarrow> string \<Rightarrow> string \<Rightarrow> pyval" where
  "exists_sysroot_of exists' sysroot resolved =
     (if \<not> exists' then PyBool False
      else if sysroot = [] then PyStr sysroot
      else PyBool (prefix sysroot resolved))"

text \<open>
  The loop over \<open>these_rpaths\<close>: the first candidate that is accepted gives the resolved
  path, the candidate and the sysroot flag; \<open>None\<close> when the loop ends with \<open>found\<close> still
  false.
\<close>

fun try_rpaths ::
  "world \<Rightarrow> string \<Rightarrow> string \<Rightarrow> string \<Rightarrow> string \<Rightarrow> string option \<Rightarrow> string list
     \<Rightarrow> (string \<times> string \<times> pyval) option" where
  "try_rpaths w unresolved exedir selfdir sysroot resolved_rpath [] = None"
| "try_rpaths w unresolved exedir selfdir sysroot resolved_rpath (rpath # these_rpaths) =
     (let resolved = str_replace ''$EXEDIR'' exedir
                       (str_replace ''$SELFDIR'' selfdir
                         (str_replace ''$RPATH'' rpath unresolved));
          exists' = path_exists w resolved;
          exists_sysroot = exists_sysroot_of exists' sysroot resolved
      in if truthy resolved_rpath \<or> exists' \<or> is_true exists_sysroot
         then Some (resolved, rpath, exists_sysroot)
         else try_rpaths w unresolved exedir selfdir sysroot resolved_rpath these_rpaths)"

definition candidate_rpaths ::
  "string list \<Rightarrow> string \<Rightarrow> string list \<Rightarrow> string \<Rightarrow> string option \<Rightarrow> string list" where
  "candidate_rpaths rpaths_transitive LD_LIBRARY_PATH default_paths sysroot resolved_rpath =
     (let ld_library_paths =
            (if LD_LIBRARY_PATH = [] then [] else str_split (CHR '':'') LD_LIBRARY_PATH)
      in case resolved_rpath of
           Some r \<Rightarrow>
             if r \<noteq> [] then [r]
             else rpaths_transitive @ ld_library_paths
                    @ map (\<lambda>dp. str_replace ''$SYSROOT/'' sysroot dp) default_paths
         | None \<Rightarrow>
             rpaths_transitive @ ld_library_paths
               @ map (\<lambda>dp. str_replace ''$SYSROOT/'' sysroot dp) default_paths)"

definition get_resolved_location ::
  "world \<Rightarrow> binary \<Rightarrow> string \<Rightarrow> string \<Rightarrow> string \<Rightarrow> string list \<Rightarrow> string \<Rightarrow> string list
     \<Rightarrow> string \<Rightarrow> string option \<Rightarrow> string \<times> string option \<times> pyval" where
  "get_resolved_location w codefile unresolved exedir selfdir rpaths_transitive
       LD_LIBRARY_PATH default_paths sysroot resolved_rpath =
     (if prefix ''$RPATH'' unresolved then
        (case try_rpaths w unresolved exedir selfdir sysroot resolved_rpath
                (candidate_rpaths rpaths_transitive LD_LIBRARY_PATH default_paths sysroot
                   resolved_rpath) of
           None \<Rightarrow> (unresolved, None, PyBool False)
         | Some (resolved, rpath_result, exists_sysroot) \<Rightarrow>
             (resolved, Some rpath_result, exists_sysroot))
      else if sublist ''$SELFDIR'' unresolved \<or> sublist ''$EXEDIR'' unresolved then
        (let resolved = str_replace ''$EXEDIR'' exedir
                          (str_replace ''$SELFDIR'' selfdir unresolved);
             exists' = path_exists w resolved;
             exists_sysroot = exists_sysroot_of exists' sysroot resolved
         in (resolved, None, exists_sysroot))
      else if prefix ''/'' unresolved then (unresolved, None, PyBool False)
      else (join selfdir [unresolved], None, PyBool False))"

section \<open>The walk over the dependency graph\<close>

text \<open>
  The local state of \<open>inspect_linkages_lief\<close>. An element of \<open>todo\<close> is a file name with
  what \<open>lief.parse\<close> returned for it; the root has parent \<open>None\<close>.
\<close>

record walk_state =
  todo :: "(string \<times> binary option) list"
  already_seen :: "string set"
  results :: "string set"
  rpaths_by_binary :: "string \<rightharpoonup> string list"
  parents_by_filename :: "string \<rightharpoonup> string option"

text \<open>
  The two loops \<open>while tmp_filename:\<close> follow \<open>parents_by_filename\<close> upwards. A child that
  names an ancestor makes the chain a cycle, so both take fuel, and \<open>None\<close> says that the
  fuel ran out. A key that is missing from a dictionary raises \<open>KeyError\<close>.
\<close>

fun pe_parent_loop ::
  "nat \<Rightarrow> world \<Rightarrow> (string \<rightharpoonup> string option) \<Rightarrow> string option \<Rightarrow> string option
     \<Rightarrow> (error + string option) option" where
  "pe_parent_loop 0 w parents tmp_filename parent_exe_dirname = None"
| "pe_parent_loop (Suc n) w parents tmp_filename parent_exe_dirname =
     (case tmp_filename of
        None \<Rightarrow> Some (Inr parent_exe_dirname)
      | Some t \<Rightarrow>
          if t = [] then Some (Inr parent_exe_dirname)
          else
            (let parent_exe_dirname =
                   (if \<not> truthy parent_exe_dirname
                         \<and> codefile_type w (Filename t) = Some ''EXEfile''
                    then Some (dirname t) else parent_exe_dirname)
             in case parents t of
                  None \<Rightarrow> Some (Inl KeyError)
                | Some p \<Rightarrow> pe_parent_loop n w parents p parent_exe_dirname))"

fun transitive_loop ::
  "nat \<Rightarrow> (string \<rightharpoonup> string list) \<Rightarrow> (string \<rightharpoonup> string option) \<Rightarrow> string option
     \<Rightarrow> string list \<Rightarrow> (error + string list) option" where
  "transitive_loop 0 rpaths parents tmp_filename rpaths_transitive = None"
| "transitive_loop (Suc n) rpaths parents tmp_filename rpaths_transitive =
     (case tmp_filename of
        None \<Rightarrow> Some (Inr rpaths_transitive)
      | Some t \<Rightarrow>
          if t = [] then Some (Inr rpaths_transitive)
          else
            (case rpaths t of
               None \<Rightarrow> Some (Inl KeyError)
             | Some own \<Rightarrow>
                 (case parents t of
                    None \<Rightarrow> Some (Inl KeyError)
                  | Some p \<Rightarrow> transitive_loop n rpaths parents p (own @ rpaths_transitive))))"

text \<open>
  \<open>these_orig\<close>: outside Mach-O, a reference that starts with neither a slash nor a dollar
  gets the prefix \<open>$RPATH/\<close>.
\<close>

definition these_orig_of :: "binary \<Rightarrow> string list \<Rightarrow> string list" where
  "these_orig_of binary libs =
     map (\<lambda>lib. if \<not> prefix ''/'' lib \<and> \<not> prefix ''$'' lib \<and> format binary \<noteq> MACHO
                then ''$RPATH/'' @ lib else lib) libs"

text \<open>
  The loop \<open>for orig in these_orig\<close>. The walker passes \<open>exedir\<close> for both \<open>exedir\<close> and
  \<open>selfdir\<close>, and leaves \<open>LD_LIBRARY_PATH\<close> and \<open>resolved_rpath\<close> at their defaults.
\<close>

fun resolve_loop ::
  "world \<Rightarrow> binary \<Rightarrow> string \<Rightarrow> string \<Rightarrow> string list \<Rightarrow> string list \<Rightarrow> string \<Rightarrow> bool \<Rightarrow> bool
     \<Rightarrow> string list \<Rightarrow> walk_state \<Rightarrow> error + walk_state" where
  "resolve_loop w binary filename2 exedir rpaths_transitive default_paths sysroot
       resolve_filenames recurse [] st = Inr st"
| "resolve_loop w binary filename2 exedir rpaths_transitive default_paths sysroot
       resolve_filenames recurse (orig # these_orig) st =
     (let resolved = get_resolved_location w binary orig exedir exedir rpaths_transitive
                       [] default_paths sysroot None;
          st1 = (if resolve_filenames
                 then st\<lparr>results := insert (fst resolved) (results st),
                         parents_by_filename :=
                           (parents_by_filename st)(fst resolved \<mapsto> Some filename2)\<rparr>
                 else st\<lparr>results := insert orig (results st)\<rparr>)
      in if recurse \<and> path_exists w (fst resolved)
         then (case lief_parse w (fst resolved) of
                 Raises \<Rightarrow> Inl LiefError
               | Returns b \<Rightarrow>
                   resolve_loop w binary filename2 exedir rpaths_transitive default_paths
                     sysroot resolve_filenames recurse these_orig
                     (st1\<lparr>todo := todo st1 @ [(fst resolved, b)]\<rparr>))
         else resolve_loop w binary filename2 exedir rpaths_transitive default_paths
                sysroot resolve_filenames recurse these_orig st1)"

text \<open>The body of the \<open>for\<close> loop after \<open>todo.pop(0)\<close>, for one \<open>element\<close>.\<close>

definition process_element ::
  "nat \<Rightarrow> world \<Rightarrow> string \<Rightarrow> string list \<Rightarrow> bool \<Rightarrow> bool \<Rightarrow> string \<Rightarrow> string
     \<Rightarrow> string \<times> binary option \<Rightarrow> walk_state \<Rightarrow> (error + walk_state) option" where
  "process_element fuel w exedir default_paths resolve_filenames recurse sysroot envroot
       element st =
     (let filename2 = fst element; binary = snd element
      in case get_uniqueness_key w (Loaded binary) of
           Inl e \<Rightarrow> Some (Inl e)
         | Inr uniqueness_key \<Rightarrow>
             if uniqueness_key \<in> already_seen st then Some (Inr st)
             else
               (case binary of
                  None \<Rightarrow> Some (Inl AttributeError)
                | Some b \<Rightarrow>
                    (case (if format b = PE
                           then pe_parent_loop fuel w (parents_by_filename st)
                                  (Some filename2) None
                           else Some (Inr (Some exedir))) of
                       None \<Rightarrow> None
                     | Some (Inl e) \<Rightarrow> Some (Inl e)
                     | Some (Inr parent_exe_dirname) \<Rightarrow>
                         (let st1 = st\<lparr>rpaths_by_binary :=
                                (rpaths_by_binary st)(filename2 \<mapsto>
                                   get_rpaths w (Loaded binary) parent_exe_dirname
                                     (str_replace os_sep ''/'' envroot) sysroot)\<rparr>
                          in case (if format b = PE
                                   then (case rpaths_by_binary st1 filename2 of
                                           None \<Rightarrow> Some (Inl KeyError)
                                         | Some own \<Rightarrow> Some (Inr own))
                                   else transitive_loop fuel (rpaths_by_binary st1)
                                          (parents_by_filename st1) (Some filename2) []) of
                               None \<Rightarrow> None
                             | Some (Inl e) \<Rightarrow> Some (Inl e)
                             | Some (Inr rpaths_transitive) \<Rightarrow>
                                 (let libs = remove1 filename2 (get_libraries w (Loaded binary));
                                      these_orig = these_orig_of b libs
                                  in case resolve_loop w b filename2 exedir rpaths_transitive
                                            default_paths sysroot resolve_filenames recurse
                                            these_orig st1 of
                                       Inl e \<Rightarrow> Some (Inl e)
                                     | Inr st2 \<Rightarrow>
                                         (case get_uniqueness_key w (Loaded binary) of
                                            Inl e \<Rightarrow> Some (Inl e)
                                          | Inr k \<Rightarrow>
                                              Some (Inr (st2\<lparr>already_seen :=
                                                insert k (already_seen st2)\<rparr>))))))))"

text \<open>
  \<open>for element in todo:\<close> with \<open>todo.pop(0)\<close> as its first statement. Python's list
  iterator keeps an index \<open>i\<close>: each round it stops when \<open>i\<close> is no longer below the
  current length, and otherwise takes \<open>todo[i]\<close> and increments \<open>i\<close>. The body then removes
  the head of \<open>todo\<close>, which is the element only in the first round.
\<close>

fun for_loop ::
  "nat \<Rightarrow> world \<Rightarrow> string \<Rightarrow> string list \<Rightarrow> bool \<Rightarrow> bool \<Rightarrow> string \<Rightarrow> string
     \<Rightarrow> nat \<Rightarrow> walk_state \<Rightarrow> (error + walk_state) option" where
  "for_loop 0 w exedir default_paths resolve_filenames recurse sysroot envroot i st = None"
| "for_loop (Suc n) w exedir default_paths resolve_filenames recurse sysroot envroot i st =
     (if i < length (todo st)
      then
        (let element = todo st ! i;
             st1 = st\<lparr>todo := tl (todo st)\<rparr>
         in case process_element n w exedir default_paths resolve_filenames recurse
                   sysroot envroot element st1 of
              None \<Rightarrow> None
            | Some (Inl e) \<Rightarrow> Some (Inl e)
            | Some (Inr st2) \<Rightarrow>
                for_loop n w exedir default_paths resolve_filenames recurse sysroot envroot
                  (Suc i) st2)
      else Some (Inr st))"

fun while_loop ::
  "nat \<Rightarrow> world \<Rightarrow> string \<Rightarrow> string list \<Rightarrow> bool \<Rightarrow> bool \<Rightarrow> string \<Rightarrow> string
     \<Rightarrow> walk_state \<Rightarrow> (error + walk_state) option" where
  "while_loop 0 w exedir default_paths resolve_filenames recurse sysroot envroot st = None"
| "while_loop (Suc n) w exedir default_paths resolve_filenames recurse sysroot envroot st =
     (if todo st \<noteq> []
      then (case for_loop n w exedir default_paths resolve_filenames recurse sysroot envroot
                   0 st of
              None \<Rightarrow> None
            | Some (Inl e) \<Rightarrow> Some (Inl e)
            | Some (Inr st1) \<Rightarrow>
                while_loop n w exedir default_paths resolve_filenames recurse sysroot
                  envroot st1)
      else Some (Inr st))"

definition default_paths_of :: "binary \<Rightarrow> string list" where
  "default_paths_of binary =
     (case format binary of
        ELF \<Rightarrow>
          [''$SYSROOT/lib'', ''$SYSROOT/usr/lib'']
          @ (if type binary = CLASS64 then [''$SYSROOT/lib64'', ''$SYSROOT/usr/lib64''] else [])
      | MACHO \<Rightarrow> [''$SYSROOT/usr/lib'']
      | PE \<Rightarrow> [''$SYSROOT/System32/Wbem'', ''$SYSROOT/System32/WindowsPowerShell/v1.0''])"

text \<open>
  The walk from its first statement to the end of the \<open>while\<close> loop, with the final
  state. \<open>lief.parse(filename)\<close> is called with no test that the path exists and outside
  any \<open>try\<close>; \<open>binary.format\<close> is then read from whatever it returned.
\<close>

definition walk ::
  "nat \<Rightarrow> world \<Rightarrow> string \<Rightarrow> bool \<Rightarrow> bool \<Rightarrow> string \<Rightarrow> string
     \<Rightarrow> (error + walk_state) option" where
  "walk fuel w filename resolve_filenames recurse sysroot envroot =
     (let exedir = dirname filename
      in case lief_parse w filename of
           Raises \<Rightarrow> Some (Inl LiefError)
         | Returns None \<Rightarrow> Some (Inl AttributeError)
         | Returns (Some binary) \<Rightarrow>
             while_loop fuel w exedir (default_paths_of binary) resolve_filenames recurse
               sysroot envroot
               \<lparr>todo = [(filename, Some binary)],
                already_seen = {},
                results = {},
                rpaths_by_binary = Map.empty,
                parents_by_filename = [filename \<mapsto> None]\<rparr>)"

definition inspect_linkages_lief ::
  "nat \<Rightarrow> world \<Rightarrow> string \<Rightarrow> bool \<Rightarrow> bool \<Rightarrow> string \<Rightarrow> string
     \<Rightarrow> (error + string set) option" where
  "inspect_linkages_lief fuel w filename resolve_filenames recurse sysroot envroot =
     map_option (map_sum id results)
       (walk fuel w filename resolve_filenames recurse sysroot envroot)"

text \<open>
  \<open>get_linkages\<close> calls \<open>inspect_linkages_lief\<close> first and \<open>inspect_linkages_pyldd\<close>, which
  is another module's, second; \<open>result_pyldd\<close> stands for what that call does. The second
  component of the result says whether the disagreement warning is printed.
\<close>

definition get_linkages ::
  "nat \<Rightarrow> world \<Rightarrow> (error + string set) \<Rightarrow> string \<Rightarrow> bool \<Rightarrow> bool \<Rightarrow> string \<Rightarrow> string
     \<Rightarrow> (error + string set \<times> bool) option" where
  "get_linkages fuel w result_pyldd filename resolve_filenames recurse sysroot envroot =
     (case inspect_linkages_lief fuel w filename resolve_filenames recurse sysroot envroot of
        None \<Rightarrow> None
      | Some (Inl e) \<Rightarrow> Some (Inl e)
      | Some (Inr result_lief) \<Rightarrow>
          (case result_pyldd of
             Inl e \<Rightarrow> Some (Inl e)
           | Inr pyldd \<Rightarrow>
               Some (Inr (result_lief,
                 result_lief \<noteq> pyldd
                   \<and> codefile_type w (Filename filename) \<noteq> Some ''DLLfile''
                   \<and> codefile_type w (Filename filename) \<noteq> Some ''EXEfile''))))"

section \<open>Example binaries and file systems\<close>

text \<open>
  Binaries with the attributes that matter for one format, and a world given by the
  files on disk with what the parser returns for each; every other path does not exist
  and the parser returns \<open>None\<close> for it.
\<close>

definition elf_binary :: "string \<Rightarrow> string list \<Rightarrow> dynamic_entry list \<Rightarrow> binary" where
  "elf_binary n libs es =
     \<lparr>format = ELF, name = n, type = CLASS64, libraries = libs, dynamic_entries = es,
      has_rpath = False, commands = [], is_dll = False, ehdr = None\<rparr>"

definition macho_binary :: "string \<Rightarrow> string list \<Rightarrow> load_command list \<Rightarrow> binary" where
  "macho_binary n libs cs =
     \<lparr>format = MACHO, name = n, type = ELFCLASSNONE, libraries = libs, dynamic_entries = [],
      has_rpath = (lc_rpaths_of cs \<noteq> []), commands = cs, is_dll = False, ehdr = None\<rparr>"

definition pe_binary :: "string \<Rightarrow> string list \<Rightarrow> bool \<Rightarrow> binary" where
  "pe_binary n libs dll =
     \<lparr>format = PE, name = n, type = ELFCLASSNONE, libraries = libs, dynamic_entries = [],
      has_rpath = False, commands = [], is_dll = dll, ehdr = None\<rparr>"

definition world_of :: "(string \<times> binary) list \<Rightarrow> world" where
  "world_of files =
     \<lparr>path_exists = (\<lambda>p. map_of files p \<noteq> None),
      lief_parse = (\<lambda>p. Returns (map_of files p))\<rparr>"

text \<open>
  A root with two libraries that exist, each with one reference of its own that is
  missing; \<open>libs\<close> is the root's reference list, so that its order can be varied.
\<close>

definition order_world :: "string list \<Rightarrow> world" where
  "order_world libs = world_of
     [(''/app/bin/prog'', elf_binary ''/app/bin/prog'' libs [RUNPATH ''/app/lib'']),
      (''/app/lib/libb.so'', elf_binary ''/app/lib/libb.so'' [''libx.so''] []),
      (''/app/lib/libc.so'', elf_binary ''/app/lib/libc.so'' [''liby.so''] [])]"

text \<open>
  A diamond: the root references \<open>libb.so\<close> and \<open>libc.so\<close>, both reference \<open>libd.so\<close>,
  and \<open>libd.so\<close> references \<open>libe.so\<close>. \<open>libc.so\<close> has two more references, and one of
  those has a reference of its own.
\<close>

definition diamond_world :: world where
  "diamond_world = world_of
     [(''/app/bin/prog'',
         elf_binary ''/app/bin/prog'' [''libb.so'', ''libc.so''] [RUNPATH ''/app/lib'']),
      (''/app/lib/libb.so'', elf_binary ''/app/lib/libb.so'' [''libd.so''] []),
      (''/app/lib/libc.so'',
         elf_binary ''/app/lib/libc.so'' [''libd.so'', ''liby.so'', ''libz.so''] []),
      (''/app/lib/libd.so'', elf_binary ''/app/lib/libd.so'' [''libe.so''] []),
      (''/app/lib/libe.so'', elf_binary ''/app/lib/libe.so'' [] []),
      (''/app/lib/liby.so'', elf_binary ''/app/lib/liby.so'' [''libw.so''] []),
      (''/app/lib/libz.so'', elf_binary ''/app/lib/libz.so'' [] []),
      (''/app/lib/libw.so'', elf_binary ''/app/lib/libw.so'' [] [])]"

text \<open>An ELF program whose one library lives under the sysroot \<open>/sr\<close>.\<close>

definition sysroot_world :: world where
  "sysroot_world = world_of
     [(''/app/bin/prog'', elf_binary ''/app/bin/prog'' [''libc.so.6''] []),
      (''/sr/lib/libc.so.6'', elf_binary ''/sr/lib/libc.so.6'' [] [SONAME ''libc.so.6''])]"

text \<open>
  A Mach-O program in \<open>/app/bin\<close> that loads \<open>/opt/lib/libb.dylib\<close> by its absolute
  path; that library has the load command \<open>LC_RPATH @loader_path/../lib\<close> and references
  \<open>@rpath/libfoo.dylib\<close>, which exists beside it and not beside the program.
\<close>

definition macho_world :: world where
  "macho_world = world_of
     [(''/app/bin/prog'', macho_binary ''/app/bin/prog'' [''/opt/lib/libb.dylib''] []),
      (''/opt/lib/libb.dylib'',
         macho_binary ''/opt/lib/libb.dylib'' [''@rpath/libb.dylib'', ''@rpath/libfoo.dylib'']
           [LC_ID_DYLIB ''@rpath/libb.dylib'', LC_RPATH ''@loader_path/../lib'']),
      (''/opt/lib/../lib/libfoo.dylib'',
         macho_binary ''/opt/lib/../lib/libfoo.dylib'' [''@rpath/libfoo.dylib'']
           [LC_ID_DYLIB ''@rpath/libfoo.dylib''])]"

text \<open>
  A Mach-O program with \<open>LC_RPATH @loader_path/../lib\<close> whose library is missing beside
  it and present in the SDK's \<open>usr/lib\<close>.
\<close>

definition sdk_world :: world where
  "sdk_world = world_of
     [(''/app/bin/prog'',
         macho_binary ''/app/bin/prog'' [''@rpath/libfoo.dylib'']
           [LC_RPATH ''@loader_path/../lib'']),
      (''/sdk/usr/lib/libfoo.dylib'',
         macho_binary ''/sdk/usr/lib/libfoo.dylib'' [''@rpath/libfoo.dylib'']
           [LC_ID_DYLIB ''@rpath/libfoo.dylib''])]"

text \<open>
  A Mach-O program with \<open>LC_RPATH @loader_path/../lib\<close> whose library \<open>libfoo.dylib\<close>
  is in \<open>../lib\<close> beside it.
\<close>

definition loader_world :: world where
  "loader_world = world_of
     [(''/app/bin/prog'',
         macho_binary ''/app/bin/prog'' [''@rpath/libfoo.dylib'']
           [LC_RPATH ''@loader_path/../lib'']),
      (''/app/bin/../lib/libfoo.dylib'',
         macho_binary ''/app/bin/../lib/libfoo.dylib'' [''@rpath/libfoo.dylib'']
           [LC_ID_DYLIB ''@rpath/libfoo.dylib''])]"

text \<open>
  What a finished walk leaves: the result set, the uniqueness keys marked as seen, and
  those of the given file names whose own references were processed (they have an
  entry in \<open>rpaths_by_binary\<close>).
\<close>

definition walk_summary ::
  "string list \<Rightarrow> (error + walk_state) option
     \<Rightarrow> (error + string set \<times> string set \<times> string list) option" where
  "walk_summary files r =
     map_option
       (map_sum id
          (\<lambda>st. (results st, already_seen st,
                 filter (\<lambda>f. rpaths_by_binary st f \<noteq> None) files)))
       r"

section \<open>Facts about the string primitives\<close>

lemma str_replace_no_dollar:
  "CHR ''$'' \<notin> set s \<Longrightarrow> str_replace (CHR ''$'' # old) new s = s"
  by (induction s) auto

lemma str_split_nonempty: "str_split c s \<noteq> []"
  by (induction s) (auto split: list.splits)

lemma str_split_chars:
  "x \<in> set (str_split c s) \<Longrightarrow> set x \<subseteq> set s"
proof (induction s arbitrary: x)
  case Nil
  then show ?case by simp
next
  case (Cons a s)
  show ?case
  proof (cases "a = c")
    case True
    then have "x = [] \<or> x \<in> set (str_split c s)"
      using Cons.prems by simp
    then show ?thesis
      using Cons.IH by auto
  next
    case False
    obtain w ws where sp: "str_split c s = w # ws"
      using str_split_nonempty by (cases "str_split c s") auto
    then have "x = a # w \<or> x \<in> set ws"
      using Cons.prems False by simp
    moreover have "set w \<subseteq> set s"
      using Cons.IH sp by simp
    moreover have "y \<in> set ws \<Longrightarrow> set y \<subseteq> set s" for y
      using Cons.IH sp by simp
    ultimately show ?thesis by auto
  qed
qed

lemma set_str_rstrip: "set (str_rstrip c s) \<subseteq> set s"
  unfolding str_rstrip_def using set_dropWhileD by fastforce

lemma set_dirname: "set (dirname p) \<subseteq> set p"
proof -
  let ?head = "rev (dropWhile (\<lambda>c. c \<noteq> CHR ''/'') (rev p))"
  have h: "set ?head \<subseteq> set p"
    using set_dropWhileD by fastforce
  have "set (str_rstrip (CHR ''/'') ?head) \<subseteq> set p"
    using set_str_rstrip h by blast
  with h show ?thesis
    by (simp add: dirname_def Let_def)
qed

lemma from_os_varnames_elf_plain:
  assumes "format b = ELF" and "CHR ''$'' \<notin> set s"
  shows "from_os_varnames b s = s"
  using assms by (simp add: from_os_varnames_def str_replace_no_dollar)

section \<open>Search-path collection: ELF precedence and PE without a host directory\<close>

lemma runpaths_of_nonempty:
  "RUNPATH s \<in> set es \<Longrightarrow> runpaths_of es \<noteq> []"
  by (induction es) (auto simp: runpaths_of_def split: dynamic_entry.splits)

text \<open>
  Claim C1. For an ELF binary of class 32 or 64 with at least one RUNPATH entry,
  \<open>get_rpaths\<close> returns the RUNPATH entries, split at the colons, in order, each passed
  through \<open>from_os_varnames\<close> as every search path the function returns is; when no
  RUNPATH entry contains a dollar sign, the result is exactly the list of the
  colon-split directories. The RPATH entries play no part: any other dynamic section
  with the same RUNPATH entries gives the same list.
\<close>

theorem get_rpaths_runpath_precedence:
  assumes "format b = ELF"
    and "type b = CLASS32 \<or> type b = CLASS64"
    and "RUNPATH s \<in> set (dynamic_entries b)"
    and "runpaths_of es' = runpaths_of (dynamic_entries b)"
  shows "get_rpaths w (Loaded (Some b)) exe_dirname envroot windows_root =
           map (from_os_varnames b)
             (concat (map (str_split (CHR '':'')) (runpaths_of (dynamic_entries b))))
       \<and> get_rpaths w (Loaded (Some (b\<lparr>dynamic_entries := es'\<rparr>))) exe_dirname envroot
             windows_root =
           get_rpaths w (Loaded (Some b)) exe_dirname envroot windows_root
       \<and> ((\<forall>p \<in> set (runpaths_of (dynamic_entries b)). CHR ''$'' \<notin> set p) \<longrightarrow>
           get_rpaths w (Loaded (Some b)) exe_dirname envroot windows_root =
             concat (map (str_split (CHR '':'')) (runpaths_of (dynamic_entries b))))"
proof -
  let ?dirs = "concat (map (str_split (CHR '':'')) (runpaths_of (dynamic_entries b)))"
  have ne: "runpaths_of (dynamic_entries b) \<noteq> []"
    using assms(3) by (rule runpaths_of_nonempty)
  have own: "get_rpaths w (Loaded (Some b)) exe_dirname envroot windows_root =
           map (from_os_varnames b) ?dirs"
    using assms(1,2) ne by (simp add: get_rpaths_def ensure_binary_def Let_def)
  have canon: "from_os_varnames (b\<lparr>dynamic_entries := es'\<rparr>) = from_os_varnames b"
    by (rule ext) (simp add: from_os_varnames_def)
  have other: "get_rpaths w (Loaded (Some (b\<lparr>dynamic_entries := es'\<rparr>))) exe_dirname envroot
                 windows_root = map (from_os_varnames b) ?dirs"
    using assms(1,2,4) ne by (simp add: get_rpaths_def ensure_binary_def Let_def canon)
  have plain: "map (from_os_varnames b) ?dirs = ?dirs"
    if nd: "\<forall>p \<in> set (runpaths_of (dynamic_entries b)). CHR ''$'' \<notin> set p"
  proof (rule map_idI)
    fix d assume "d \<in> set ?dirs"
    then obtain p where "p \<in> set (runpaths_of (dynamic_entries b))"
      and "d \<in> set (str_split (CHR '':'') p)"
      by auto
    then have "CHR ''$'' \<notin> set d"
      using nd str_split_chars by fastforce
    then show "from_os_varnames b d = d"
      using assms(1) by (intro from_os_varnames_elf_plain)
  qed
  show ?thesis using own other plain by simp
qed

theorem get_rpaths_runpath_precedence_witness:
  "get_rpaths (world_of [])
     (Loaded (Some (elf_binary ''/app/bin/prog'' [''libfoo.so'']
        [RPATH ''/opt/old'', RUNPATH ''/opt/run:$ORIGIN/../lib'', NEEDED ''libfoo.so''])))
     None [] []
   = [''/opt/run'', ''$SELFDIR/../lib'']
   \<and> get_rpaths (world_of [])
     (Loaded (Some ((elf_binary ''/app/bin/prog'' [''libfoo.so'']
        [RPATH ''/opt/old'', RUNPATH ''/opt/run:$ORIGIN/../lib'', NEEDED ''libfoo.so''])
        \<lparr>dynamic_entries := [RUNPATH ''/opt/run:$ORIGIN/../lib'', RPATH ''/opt/older'']\<rparr>)))
     None [] []
   = [''/opt/run'', ''$SELFDIR/../lib'']
   \<and> get_rpaths (world_of [])
     (Loaded (Some (elf_binary ''/app/bin/prog'' [''libfoo.so'']
        [RUNPATH ''/opt/run'', RPATH ''/opt/old''])))
     None [] []
   = [''/opt/run'']"
proof -
  let ?b = "elf_binary ''/app/bin/prog'' [''libfoo.so'']
        [RPATH ''/opt/old'', RUNPATH ''/opt/run:$ORIGIN/../lib'', NEEDED ''libfoo.so'']"
  let ?c = "elf_binary ''/app/bin/prog'' [''libfoo.so'']
        [RUNPATH ''/opt/run'', RPATH ''/opt/old'']"
  have h1: "format ?b = ELF" by (simp add: elf_binary_def)
  have h2: "type ?b = CLASS32 \<or> type ?b = CLASS64" by (simp add: elf_binary_def)
  have h3: "RUNPATH ''/opt/run:$ORIGIN/../lib'' \<in> set (dynamic_entries ?b)"
    by (simp add: elf_binary_def)
  have h4: "runpaths_of [RUNPATH ''/opt/run:$ORIGIN/../lib'', RPATH ''/opt/older'']
              = runpaths_of (dynamic_entries ?b)"
    by (simp add: elf_binary_def runpaths_of_def)
  have canon: "map (from_os_varnames ?b)
                 (concat (map (str_split (CHR '':'')) (runpaths_of (dynamic_entries ?b))))
               = [''/opt/run'', ''$SELFDIR/../lib'']"
    by (simp add: elf_binary_def runpaths_of_def from_os_varnames_def)
  have g1: "format ?c = ELF" by (simp add: elf_binary_def)
  have g2: "type ?c = CLASS32 \<or> type ?c = CLASS64" by (simp add: elf_binary_def)
  have g3: "RUNPATH ''/opt/run'' \<in> set (dynamic_entries ?c)"
    by (simp add: elf_binary_def)
  have g4: "runpaths_of (dynamic_entries ?c) = runpaths_of (dynamic_entries ?c)"
    by simp
  have g5: "\<forall>p \<in> set (runpaths_of (dynamic_entries ?c)). CHR ''$'' \<notin> set p"
    by (simp add: elf_binary_def runpaths_of_def)
  have dirs: "concat (map (str_split (CHR '':'')) (runpaths_of (dynamic_entries ?c)))
               = [''/opt/run'']"
    by (simp add: elf_binary_def runpaths_of_def)
  have first: "get_rpaths (world_of []) (Loaded (Some ?b)) None [] []
                 = [''/opt/run'', ''$SELFDIR/../lib'']
               \<and> get_rpaths (world_of [])
                    (Loaded (Some (?b\<lparr>dynamic_entries :=
                       [RUNPATH ''/opt/run:$ORIGIN/../lib'', RPATH ''/opt/older'']\<rparr>)))
                    None [] []
                 = [''/opt/run'', ''$SELFDIR/../lib'']"
    using get_rpaths_runpath_precedence [OF h1 h2 h3 h4, of "world_of []" None "[]" "[]"]
    by (simp only: canon simp_thms)
  have "(\<forall>p \<in> set (runpaths_of (dynamic_entries ?c)). CHR ''$'' \<notin> set p) \<longrightarrow>
          get_rpaths (world_of []) (Loaded (Some ?c)) None [] [] =
            concat (map (str_split (CHR '':'')) (runpaths_of (dynamic_entries ?c)))"
    using get_rpaths_runpath_precedence [OF g1 g2 g3 g4, of "world_of []" None "[]" "[]"]
    by blast
  then have second: "get_rpaths (world_of []) (Loaded (Some ?c)) None [] [] = [''/opt/run'']"
    using g5 unfolding dirs by blast
  show ?thesis using first second by simp
qed

section \<open>Resolution of one reference\<close>

lemma try_rpaths_none:
  assumes "\<not> truthy resolved_rpath"
    and "\<forall>rpath \<in> set rs. \<not> path_exists w (str_replace ''$EXEDIR'' exedir
           (str_replace ''$SELFDIR'' selfdir (str_replace ''$RPATH'' rpath unresolved)))"
  shows "try_rpaths w unresolved exedir selfdir sysroot resolved_rpath rs = None"
  using assms by (induction rs) (auto simp: exists_sysroot_of_def Let_def)

lemma try_rpaths_some:
  assumes "try_rpaths w unresolved exedir selfdir sysroot resolved_rpath rs = Some (res, rp, es)"
  shows "rp \<in> set rs \<and>
         res = str_replace ''$EXEDIR'' exedir
                 (str_replace ''$SELFDIR'' selfdir (str_replace ''$RPATH'' rp unresolved)) \<and>
         (truthy resolved_rpath \<or> path_exists w res)"
  using assms
proof (induction rs)
  case Nil
  then show ?case by simp
next
  case (Cons r rs)
  then show ?case
    by (auto simp: exists_sysroot_of_def Let_def split: if_splits)
qed

lemma candidate_rpaths_unforced:
  "\<not> truthy resolved_rpath \<Longrightarrow>
   candidate_rpaths rpaths_transitive LD default_paths sysroot resolved_rpath =
     rpaths_transitive @ (if LD = [] then [] else str_split (CHR '':'') LD)
       @ map (str_replace ''$SYSROOT/'' sysroot) default_paths"
  by (cases resolved_rpath) (auto simp: candidate_rpaths_def)

lemma slash_not_rpath: "prefix ''/'' u \<Longrightarrow> \<not> prefix ''$RPATH'' u"
  by (cases u) auto

text \<open>
  Claim C8. For a PE binary with no host executable directory (\<open>exe_dirname\<close> is \<open>None\<close>
  or empty), \<open>get_rpaths\<close> returns the empty list whatever \<open>envroot\<close> and \<open>windows_root\<close>
  are. A reference that starts with \<open>$RPATH\<close> and is resolved against these search paths
  then either stays as it is, or is resolved through a directory of \<open>LD_LIBRARY_PATH\<close> or
  a default path with the sysroot substituted, at a path that exists.
\<close>

theorem get_rpaths_pe_unknown_exedir:
  assumes "format b = PE"
    and "\<not> truthy exe_dirname"
    and "prefix ''$RPATH'' unresolved"
  shows "get_rpaths w (Loaded (Some b)) exe_dirname envroot windows_root = []
       \<and> (let r = get_resolved_location w b unresolved exedir selfdir
                     (get_rpaths w (Loaded (Some b)) exe_dirname envroot windows_root)
                     LD_LIBRARY_PATH default_paths sysroot None
          in r = (unresolved, None, PyBool False)
           \<or> (\<exists>rpath. rpath \<in> set ((if LD_LIBRARY_PATH = [] then []
                                      else str_split (CHR '':'') LD_LIBRARY_PATH)
                                   @ map (str_replace ''$SYSROOT/'' sysroot) default_paths)
                \<and> fst r = str_replace ''$EXEDIR'' exedir
                     (str_replace ''$SELFDIR'' selfdir (str_replace ''$RPATH'' rpath unresolved))
                \<and> fst (snd r) = Some rpath
                \<and> path_exists w (fst r)))"
proof -
  have own: "get_rpaths w (Loaded (Some b)) exe_dirname envroot windows_root = []"
    using assms(1,2) by (cases exe_dirname) (auto simp: get_rpaths_def ensure_binary_def)
  let ?cands = "(if LD_LIBRARY_PATH = [] then [] else str_split (CHR '':'') LD_LIBRARY_PATH)
                  @ map (str_replace ''$SYSROOT/'' sysroot) default_paths"
  have cands: "candidate_rpaths [] LD_LIBRARY_PATH default_paths sysroot None = ?cands"
    by (simp add: candidate_rpaths_def)
  show ?thesis
  proof (cases "try_rpaths w unresolved exedir selfdir sysroot None ?cands")
    case None
    then show ?thesis using own assms(3) cands
      by (simp add: get_resolved_location_def)
  next
    case (Some t)
    obtain res rp es where t: "t = (res, rp, es)" by (cases t)
    from try_rpaths_some[OF Some[unfolded t]] Some t own assms(3) cands
    show ?thesis
      by (auto simp: get_resolved_location_def Let_def)
  qed
qed

theorem get_rpaths_pe_unknown_exedir_witness:
  "get_rpaths
     (world_of [(''C:/Windows/System32/Wbem/wmi.dll'',
                 pe_binary ''C:/Windows/System32/Wbem/wmi.dll'' [] True)])
     (Loaded (Some (pe_binary ''C:/pkgs/foo.dll'' [''wmi.dll''] True)))
     None ''C:/env'' ''C:/Windows/'' = []
   \<and> get_resolved_location
     (world_of [(''C:/Windows/System32/Wbem/wmi.dll'',
                 pe_binary ''C:/Windows/System32/Wbem/wmi.dll'' [] True)])
     (pe_binary ''C:/pkgs/foo.dll'' [''wmi.dll''] True)
     ''$RPATH/wmi.dll'' ''C:/pkgs'' ''C:/pkgs'' [] []
     [''$SYSROOT/System32/Wbem'', ''$SYSROOT/System32/WindowsPowerShell/v1.0'']
     ''C:/Windows/'' None
   = (''C:/Windows/System32/Wbem/wmi.dll'', Some ''C:/Windows/System32/Wbem'', PyBool True)"
proof -
  let ?w = "world_of [(''C:/Windows/System32/Wbem/wmi.dll'',
                 pe_binary ''C:/Windows/System32/Wbem/wmi.dll'' [] True)]"
  let ?b = "pe_binary ''C:/pkgs/foo.dll'' [''wmi.dll''] True"
  have h1: "format ?b = PE" by (simp add: pe_binary_def)
  have h2: "\<not> truthy None" by simp
  have h3: "prefix ''$RPATH'' ''$RPATH/wmi.dll''" by simp
  have run: "get_resolved_location ?w ?b ''$RPATH/wmi.dll'' ''C:/pkgs'' ''C:/pkgs'' [] []
     [''$SYSROOT/System32/Wbem'', ''$SYSROOT/System32/WindowsPowerShell/v1.0'']
     ''C:/Windows/'' None
   = (''C:/Windows/System32/Wbem/wmi.dll'', Some ''C:/Windows/System32/Wbem'', PyBool True)"
    by (simp add: get_resolved_location_def candidate_rpaths_def exists_sysroot_of_def
          world_of_def)
  show ?thesis
    using get_rpaths_pe_unknown_exedir [OF h1 h2 h3, of ?w "''C:/env''" "''C:/Windows/''"] run
    by simp
qed

text \<open>
  Claim C2. A reference that starts with \<open>$RPATH\<close>, no forced rpath, and no candidate
  directory (the transitive search paths, then \<open>LD_LIBRARY_PATH\<close> split at the colons,
  then the default paths with the sysroot substituted) whose substituted path exists:
  \<open>_get_resolved_location\<close> returns the reference unchanged with no search path used
  and \<open>False\<close> for the sysroot flag.
\<close>

theorem resolved_location_rpath_unresolved:
  assumes "prefix ''$RPATH'' unresolved"
    and "\<not> truthy resolved_rpath"
    and "\<forall>rpath \<in> set (rpaths_transitive
              @ (if LD_LIBRARY_PATH = [] then [] else str_split (CHR '':'') LD_LIBRARY_PATH)
              @ map (str_replace ''$SYSROOT/'' sysroot) default_paths).
           \<not> path_exists w (str_replace ''$EXEDIR'' exedir
               (str_replace ''$SELFDIR'' selfdir (str_replace ''$RPATH'' rpath unresolved)))"
  shows "get_resolved_location w codefile unresolved exedir selfdir rpaths_transitive
           LD_LIBRARY_PATH default_paths sysroot resolved_rpath = (unresolved, None, PyBool False)"
proof -
  have "try_rpaths w unresolved exedir selfdir sysroot resolved_rpath
          (candidate_rpaths rpaths_transitive LD_LIBRARY_PATH default_paths sysroot resolved_rpath)
        = None"
    using assms(2,3) by (intro try_rpaths_none) (simp_all add: candidate_rpaths_unforced)
  then show ?thesis using assms(1) by (simp add: get_resolved_location_def)
qed

theorem resolved_location_rpath_unresolved_witness:
  "get_resolved_location
     (world_of [(''/usr/lib/libbar.so'', elf_binary ''/usr/lib/libbar.so'' [] [])])
     (elf_binary ''/app/bin/prog'' [''libfoo.so''] [RUNPATH ''$ORIGIN/../lib''])
     ''$RPATH/libfoo.so'' ''/app/bin'' ''/app/bin'' [''$SELFDIR/../lib''] ''/opt/a:/opt/b''
     [''$SYSROOT/lib'', ''$SYSROOT/usr/lib''] ''/'' None
   = (''$RPATH/libfoo.so'', None, PyBool False)"
proof -
  let ?w = "world_of [(''/usr/lib/libbar.so'', elf_binary ''/usr/lib/libbar.so'' [] [])]"
  have h1: "prefix ''$RPATH'' ''$RPATH/libfoo.so''" by simp
  have h2: "\<not> truthy None" by simp
  have h3: "\<forall>rpath \<in> set ([''$SELFDIR/../lib'']
              @ (if ''/opt/a:/opt/b'' = [] then [] else str_split (CHR '':'') ''/opt/a:/opt/b'')
              @ map (str_replace ''$SYSROOT/'' ''/'') [''$SYSROOT/lib'', ''$SYSROOT/usr/lib'']).
           \<not> path_exists ?w (str_replace ''$EXEDIR'' ''/app/bin''
               (str_replace ''$SELFDIR'' ''/app/bin''
                 (str_replace ''$RPATH'' rpath ''$RPATH/libfoo.so'')))"
    by (simp add: world_of_def)
  show ?thesis
    using h1 h2 h3 by (rule resolved_location_rpath_unresolved)
qed

text \<open>
  Claim C9. A reference that starts with a slash and contains neither \<open>$SELFDIR\<close> nor
  \<open>$EXEDIR\<close> is returned unchanged, with no search path used, for every file system,
  search-path stack, \<open>LD_LIBRARY_PATH\<close>, default paths, sysroot and forced rpath.
\<close>

theorem resolved_location_absolute_unchanged:
  assumes "prefix ''/'' unresolved"
    and "\<not> sublist ''$SELFDIR'' unresolved"
    and "\<not> sublist ''$EXEDIR'' unresolved"
  shows "get_resolved_location w codefile unresolved exedir selfdir rpaths_transitive
           LD_LIBRARY_PATH default_paths sysroot resolved_rpath = (unresolved, None, PyBool False)"
proof -
  have "\<not> prefix ''$RPATH'' unresolved"
    using assms(1) by (rule slash_not_rpath)
  then show ?thesis
    using assms by (simp add: get_resolved_location_def)
qed

theorem resolved_location_absolute_unchanged_witness:
  "get_resolved_location
     (world_of [(''/opt/lib/libSystem.B.dylib'', macho_binary ''/opt/lib/libSystem.B.dylib'' [] [])])
     (macho_binary ''/app/bin/prog'' [''/usr/lib/libSystem.B.dylib''] [LC_RPATH ''/opt/lib''])
     ''/usr/lib/libSystem.B.dylib'' ''/app/bin'' ''/app/bin'' [''/opt/lib''] ''/opt/lib''
     [''$SYSROOT/usr/lib''] ''/opt/'' (Some ''/opt/lib'')
   = (''/usr/lib/libSystem.B.dylib'', None, PyBool False)"
proof -
  have h1: "prefix ''/'' ''/usr/lib/libSystem.B.dylib''" by simp
  have h2: "\<not> sublist ''$SELFDIR'' ''/usr/lib/libSystem.B.dylib''"
    by (simp add: sublist_code)
  have h3: "\<not> sublist ''$EXEDIR'' ''/usr/lib/libSystem.B.dylib''"
    by (simp add: sublist_code)
  show ?thesis
    using h1 h2 h3 by (rule resolved_location_absolute_unchanged)
qed

section \<open>The walk on concrete file systems\<close>

lemmas walk_defs = inspect_linkages_lief_def walk_def world_of_def elf_binary_def
  macho_binary_def process_element_def get_uniqueness_key_def ensure_binary_def
  get_rpaths_def get_libraries_def these_orig_of_def get_resolved_location_def
  candidate_rpaths_def exists_sysroot_of_def default_paths_of_def dirname_def
  str_rstrip_def from_os_varnames_def os_sep_def runpaths_of_def rpaths_of_def
  sonames_of_def lc_rpaths_of_def id_dylibs_of_def Let_def suffix_to_prefix sublist_code

text \<open>
  Claim C3. The claim says that the entry points return a result for every input, the
  empty one for a path that does not exist, and let no exception out. The code calls
  \<open>lief.parse(filename)\<close> with no test of \<open>os.path.exists\<close> and outside any \<open>try\<close>, and
  reads \<open>binary.format\<close> next: for a path that does not exist, and for a file that the
  parser cannot parse, \<open>inspect_linkages_lief\<close> and \<open>get_linkages\<close> raise, with any
  fuel and any options. With \<open>resolve_filenames\<close> off and \<open>recurse\<close> on, a program whose
  libraries exist raises \<open>KeyError\<close>: no parent is recorded for a library that is put on
  \<open>todo\<close>, and the walk up \<open>parents_by_filename\<close> looks it up.
\<close>

theorem inspect_linkages_lief_raises:
  "inspect_linkages_lief fuel (world_of []) ''/no/such/file'' resolve_filenames recurse
      sysroot envroot = Some (Inl AttributeError)
   \<and> get_linkages fuel (world_of []) result_pyldd ''/no/such/file'' resolve_filenames
      recurse sysroot envroot = Some (Inl AttributeError)
   \<and> inspect_linkages_lief fuel
      \<lparr>path_exists = (\<lambda>p. False), lief_parse = (\<lambda>p. Raises)\<rparr>
      ''/no/such/file'' resolve_filenames recurse sysroot envroot = Some (Inl LiefError)
   \<and> inspect_linkages_lief fuel
      \<lparr>path_exists = (\<lambda>p. p = ''/app/README''), lief_parse = (\<lambda>p. Returns None)\<rparr>
      ''/app/README'' resolve_filenames recurse sysroot envroot = Some (Inl AttributeError)
   \<and> inspect_linkages_lief 20 (order_world [''libb.so'', ''libc.so'']) ''/app/bin/prog''
      False True [] [] = Some (Inl KeyError)"
proof -
  have absent: "lief_parse (world_of []) ''/no/such/file'' = Returns None"
    by (simp add: world_of_def)
  have lief: "inspect_linkages_lief fuel (world_of []) ''/no/such/file'' resolve_filenames
                recurse sysroot envroot = Some (Inl AttributeError)"
    using absent by (simp add: inspect_linkages_lief_def walk_def)
  have both: "get_linkages fuel (world_of []) result_pyldd ''/no/such/file''
                resolve_filenames recurse sysroot envroot = Some (Inl AttributeError)"
    using lief by (simp add: get_linkages_def)
  have raising: "inspect_linkages_lief fuel
      \<lparr>path_exists = (\<lambda>p. False), lief_parse = (\<lambda>p. Raises)\<rparr>
      ''/no/such/file'' resolve_filenames recurse sysroot envroot = Some (Inl LiefError)"
    by (simp add: inspect_linkages_lief_def walk_def)
  have unparsed: "inspect_linkages_lief fuel
      \<lparr>path_exists = (\<lambda>p. p = ''/app/README''), lief_parse = (\<lambda>p. Returns None)\<rparr>
      ''/app/README'' resolve_filenames recurse sysroot envroot = Some (Inl AttributeError)"
    by (simp add: inspect_linkages_lief_def walk_def)
  have unresolved_names:
    "inspect_linkages_lief 20 (order_world [''libb.so'', ''libc.so'']) ''/app/bin/prog''
       False True [] [] = Some (Inl KeyError)"
    by (simp add: order_world_def walk_defs eval_nat_numeral)
  show ?thesis
    using lief both raising unparsed unresolved_names by simp
qed

text \<open>
  Claim C5. The claim says that \<open>to_os_varnames\<close> is total and returns a string for every
  format. On an ELF binary the code raises \<open>AttributeError\<close> for every input text, with
  or without an \<open>ehdr\<close> attribute, and on a PE binary it returns \<open>None\<close>, not the text.
\<close>

theorem to_os_varnames_elf_raises_pe_none:
  "to_os_varnames (elf_binary n libs es) s = Inl AttributeError
   \<and> to_os_varnames ((elf_binary n libs es)\<lparr>ehdr := Some 8\<rparr>) s = Inl AttributeError
   \<and> to_os_varnames (pe_binary n libs dll) s = Inr None"
  by (simp add: to_os_varnames_def elf_binary_def pe_binary_def)

text \<open>
  Claim C6. The claim says that in every diamond the walker processes the references of
  the shared library \<open>D\<close> exactly once. In \<open>diamond_world\<close> the walk returns, with
  \<open>libd.so\<close> in the result set, and never processes \<open>libd.so\<close>: its key is not among the
  seen keys, it is not among the files whose references were processed, and its
  reference \<open>libe.so\<close> is in no form in the result. \<open>libb.so\<close> is dropped in the same
  way.
\<close>

theorem diamond_shared_library_never_processed:
  "walk_summary
     [''/app/bin/prog'', ''/app/lib/libb.so'', ''/app/lib/libc.so'', ''/app/lib/libd.so'',
      ''/app/lib/libe.so'', ''/app/lib/liby.so'', ''/app/lib/libz.so'', ''/app/lib/libw.so'']
     (walk 40 diamond_world ''/app/bin/prog'' True True [] []) =
     Some (Inr
       ({''/app/lib/libw.so'', ''/app/lib/libz.so'', ''/app/lib/liby.so'',
         ''/app/lib/libd.so'', ''/app/lib/libc.so'', ''/app/lib/libb.so''},
        {''/app/lib/libw.so'', ''/app/lib/liby.so'', ''/app/lib/libc.so'', ''/app/bin/prog''},
        [''/app/bin/prog'', ''/app/lib/libc.so'', ''/app/lib/liby.so'', ''/app/lib/libw.so'']))"
  by (simp add: walk_summary_def diamond_world_def walk_defs eval_nat_numeral)

text \<open>
  Claim C7. The claim says that the result does not depend on the order of the root's
  own reference list. In \<open>order_world\<close> the two orders of the same two references give
  different result sets: the walker processes only the library that is named second.
\<close>

theorem reference_order_changes_result:
  "inspect_linkages_lief 20 (order_world [''libb.so'', ''libc.so'']) ''/app/bin/prog''
      True True [] []
     = Some (Inr {''$RPATH/liby.so'', ''/app/lib/libc.so'', ''/app/lib/libb.so''})
   \<and> inspect_linkages_lief 20 (order_world [''libc.so'', ''libb.so'']) ''/app/bin/prog''
      True True [] []
     = Some (Inr {''$RPATH/libx.so'', ''/app/lib/libb.so'', ''/app/lib/libc.so''})
   \<and> ''$RPATH/libx.so'' \<notin> {''$RPATH/liby.so'', ''/app/lib/libc.so'', ''/app/lib/libb.so''}"
  by (simp add: order_world_def walk_defs eval_nat_numeral)

text \<open>
  Claim C10. The claim says that a sysroot with trailing separators gives the same
  result as the trimmed sysroot. \<open>inspect_linkages_lief\<close> never calls \<open>_trim_sysroot\<close>:
  in \<open>sysroot_world\<close> the sysroot \<open>/sr/\<close> and its trimmed form \<open>/sr\<close> give different
  result sets.
\<close>

theorem sysroot_not_trimmed:
  "trim_sysroot ''/sr/'' = ''/sr''
   \<and> inspect_linkages_lief 20 sysroot_world ''/app/bin/prog'' True True ''/sr/'' []
     = Some (Inr {''/sr/lib/libc.so.6''})
   \<and> inspect_linkages_lief 20 sysroot_world ''/app/bin/prog'' True True
        (trim_sysroot ''/sr/'') []
     = Some (Inr {''$RPATH/libc.so.6''})"
proof -
  have trim: "trim_sysroot ''/sr/'' = ''/sr''"
    by (simp add: suffix_to_prefix)
  have untrimmed:
    "inspect_linkages_lief 20 sysroot_world ''/app/bin/prog'' True True ''/sr/'' []
     = Some (Inr {''/sr/lib/libc.so.6''})"
    by (simp add: sysroot_world_def walk_defs eval_nat_numeral)
  have trimmed:
    "inspect_linkages_lief 20 sysroot_world ''/app/bin/prog'' True True ''/sr'' []
     = Some (Inr {''$RPATH/libc.so.6''})"
    by (simp add: sysroot_world_def walk_defs eval_nat_numeral)
  show ?thesis
    using untrimmed trimmed by (simp only: trim simp_thms)
qed

section \<open>The result set only grows\<close>

lemma resolve_loop_results_mono:
  "resolve_loop w b filename2 exedir rt dps sysroot rf rec origs st = Inr st'
   \<Longrightarrow> results st \<subseteq> results st'"
proof (induction origs arbitrary: st)
  case Nil
  then show ?case by simp
next
  case (Cons orig origs)
  then show ?case
    by (fastforce simp: Let_def split: if_splits parse_result.splits)
qed

lemma process_element_results_mono:
  assumes "process_element fuel w exedir dps rf rec sysroot envroot element st = Some (Inr st')"
  shows "results st \<subseteq> results st'"
proof (cases "get_uniqueness_key w (Loaded (snd element))")
  case (Inl e)
  then show ?thesis using assms by (simp add: process_element_def Let_def)
next
  case (Inr key)
  show ?thesis
  proof (cases "key \<in> already_seen st")
    case True
    then show ?thesis using assms Inr by (simp add: process_element_def Let_def)
  next
    case False
    then show ?thesis
      using assms Inr
      by (auto simp: process_element_def Let_def
            split: option.splits sum.splits if_splits
            dest!: resolve_loop_results_mono)
  qed
qed

lemma for_loop_results_mono:
  "for_loop fuel w exedir dps rf rec sysroot envroot i st = Some (Inr st')
   \<Longrightarrow> results st \<subseteq> results st'"
proof (induction fuel arbitrary: i st)
  case 0
  then show ?case by simp
next
  case (Suc n)
  show ?case
  proof (cases "i < length (todo st)")
    case False
    then show ?thesis using Suc.prems by simp
  next
    case True
    then obtain st2 where
      p: "process_element n w exedir dps rf rec sysroot envroot (todo st ! i)
            (st\<lparr>todo := tl (todo st)\<rparr>) = Some (Inr st2)"
      and f: "for_loop n w exedir dps rf rec sysroot envroot (Suc i) st2 = Some (Inr st')"
      using Suc.prems by (auto simp: Let_def split: option.splits sum.splits)
    have "results st \<subseteq> results st2"
      using process_element_results_mono[OF p] by simp
    moreover have "results st2 \<subseteq> results st'"
      using Suc.IH[OF f] .
    ultimately show ?thesis by blast
  qed
qed

lemma while_loop_results_mono:
  "while_loop fuel w exedir dps rf rec sysroot envroot st = Some (Inr st')
   \<Longrightarrow> results st \<subseteq> results st'"
proof (induction fuel arbitrary: st)
  case 0
  then show ?case by simp
next
  case (Suc n)
  show ?case
  proof (cases "todo st = []")
    case True
    then show ?thesis using Suc.prems by simp
  next
    case False
    then obtain st1 where
      f: "for_loop n w exedir dps rf rec sysroot envroot 0 st = Some (Inr st1)"
      and w: "while_loop n w exedir dps rf rec sysroot envroot st1 = Some (Inr st')"
      using Suc.prems by (auto split: option.splits sum.splits)
    show ?thesis
      using for_loop_results_mono[OF f] Suc.IH[OF w] by blast
  qed
qed

section \<open>Mach-O: \<open>@rpath\<close> through \<open>@loader_path\<close>\<close>

lemma transitive_loop_root:
  assumes "transitive_loop m rp ps (Some f) [] = Some (Inr r)"
    and "f \<noteq> []" and "rp f = Some own" and "ps f = Some None"
  shows "r = own"
proof (cases m)
  case 0
  then show ?thesis using assms by simp
next
  case (Suc j)
  then show ?thesis using assms by (cases j) simp_all
qed

lemma macho_key:
  "format b = MACHO \<Longrightarrow> get_uniqueness_key w (Loaded (Some b)) = Inr (name b)"
  by (simp add: get_uniqueness_key_def ensure_binary_def)

lemma macho_own_rpaths:
  assumes "format b = MACHO" and "has_rpath b"
    and "lc_rpaths_of (commands b) = [''@loader_path/../lib'']"
  shows "get_rpaths w (Loaded (Some b)) exe_dirname envroot windows_root = [''$SELFDIR/../lib'']"
  using assms
  by (simp add: get_rpaths_def ensure_binary_def from_os_varnames_def str_rstrip_def)

lemma macho_references:
  assumes "format b = MACHO" and "has_rpath b"
    and notself: "\<forall>n \<in> set (id_dylibs_of (commands b)). \<not> suffix n ''@rpath/libfoo.dylib''"
    and "libraries b = [''@rpath/libfoo.dylib'']"
  shows "get_libraries w (Loaded (Some b)) = [''$RPATH/libfoo.dylib'']"
proof -
  have "\<not> ends_with_name (case id_dylibs_of (commands b) of [] \<Rightarrow> None | n # x \<Rightarrow> Some n)
           ''@rpath/libfoo.dylib''"
    using notself by (cases "id_dylibs_of (commands b)") auto
  then show ?thesis
    using assms by (simp add: get_libraries_def ensure_binary_def from_os_varnames_def)
qed

lemma macho_resolved:
  assumes "format b = MACHO"
    and nd_exedir: "CHR ''$'' \<notin> set exedir"
    and nd_sysroot: "CHR ''$'' \<notin> set sysroot"
  shows "fst (get_resolved_location w b ''$RPATH/libfoo.dylib'' exedir exedir
                [''$SELFDIR/../lib''] [] (default_paths_of b) sysroot None)
         = (if path_exists w (exedir @ ''/../lib/libfoo.dylib'')
            then exedir @ ''/../lib/libfoo.dylib''
            else if path_exists w (sysroot @ ''usr/lib/libfoo.dylib'')
            then sysroot @ ''usr/lib/libfoo.dylib''
            else ''$RPATH/libfoo.dylib'')"
proof -
  have r1: "str_replace ''$EXEDIR'' exedir (exedir @ ''/../lib/libfoo.dylib'')
              = exedir @ ''/../lib/libfoo.dylib''"
    using nd_exedir by (intro str_replace_no_dollar) simp
  have r2: "str_replace ''$SELFDIR'' exedir (sysroot @ ''usr/lib/libfoo.dylib'')
              = sysroot @ ''usr/lib/libfoo.dylib''"
    using nd_sysroot by (intro str_replace_no_dollar) simp
  have r3: "str_replace ''$EXEDIR'' exedir (sysroot @ ''usr/lib/libfoo.dylib'')
              = sysroot @ ''usr/lib/libfoo.dylib''"
    using nd_sysroot by (intro str_replace_no_dollar) simp
  show ?thesis
    using assms(1)
    by (simp add: get_resolved_location_def candidate_rpaths_def default_paths_of_def
          exists_sysroot_of_def r1 r2 r3 Let_def)
qed

lemma macho_root_first_step:
  assumes macho: "format b = MACHO"
    and has: "has_rpath b"
    and lc: "lc_rpaths_of (commands b) = [''@loader_path/../lib'']"
    and notself: "\<forall>n \<in> set (id_dylibs_of (commands b)). \<not> suffix n ''@rpath/libfoo.dylib''"
    and libs: "libraries b = [''@rpath/libfoo.dylib'']"
    and nonempty: "filename \<noteq> []"
    and nd_file: "CHR ''$'' \<notin> set filename"
    and nd_sysroot: "CHR ''$'' \<notin> set sysroot"
    and fresh: "name b \<notin> already_seen st"
    and root: "parents_by_filename st filename = Some None"
    and run: "process_element m w (dirname filename) (default_paths_of b) True recurse sysroot
                envroot (filename, Some b) st = Some (Inr st')"
  shows "(if path_exists w (dirname filename @ ''/../lib/libfoo.dylib'')
          then dirname filename @ ''/../lib/libfoo.dylib''
          else if path_exists w (sysroot @ ''usr/lib/libfoo.dylib'')
          then sysroot @ ''usr/lib/libfoo.dylib''
          else ''$RPATH/libfoo.dylib'') \<in> results st'"
proof -
  define exedir where "exedir = dirname filename"
  define X where "X = (if path_exists w (exedir @ ''/../lib/libfoo.dylib'')
                then exedir @ ''/../lib/libfoo.dylib''
                else if path_exists w (sysroot @ ''usr/lib/libfoo.dylib'')
                then sysroot @ ''usr/lib/libfoo.dylib''
                else ''$RPATH/libfoo.dylib'')"
  have nd_exedir: "CHR ''$'' \<notin> set exedir"
    using nd_file set_dirname unfolding exedir_def by blast
  note key = macho_key[OF macho]
  note own = macho_own_rpaths[OF macho has lc]
  note refs = macho_references[OF macho has notself libs]
  have neq: "filename \<noteq> ''$RPATH/libfoo.dylib''"
    using nd_file by auto
  have orig: "these_orig_of b [''$RPATH/libfoo.dylib''] = [''$RPATH/libfoo.dylib'']"
    by (simp add: these_orig_of_def)
  have res: "fst (get_resolved_location w b ''$RPATH/libfoo.dylib'' exedir exedir
                [''$SELFDIR/../lib''] [] (default_paths_of b) sysroot None) = X"
    unfolding X_def using macho nd_exedir nd_sysroot by (rule macho_resolved)
  let ?tl = "transitive_loop m ((rpaths_by_binary st)(filename \<mapsto> [''$SELFDIR/../lib'']))
               (parents_by_filename st) (Some filename) []"
  let ?rl = "\<lambda>rt. resolve_loop w b filename exedir rt (default_paths_of b) sysroot True recurse
               [''$RPATH/libfoo.dylib'']
               (st\<lparr>rpaths_by_binary :=
                  (rpaths_by_binary st)(filename \<mapsto> [''$SELFDIR/../lib''])\<rparr>)"
  note unfold = process_element_def key own refs neq orig exedir_def[symmetric] Let_def
  obtain rt where tl: "?tl = Some (Inr rt)"
  proof (cases ?tl)
    case None
    then show ?thesis
      using run fresh macho by (simp add: unfold del: resolve_loop.simps)
  next
    case (Some r)
    then show ?thesis
      using run fresh macho that
      by (cases r) (simp_all add: unfold del: resolve_loop.simps)
  qed
  have rt: "rt = [''$SELFDIR/../lib'']"
    using nonempty root by (intro transitive_loop_root[OF tl]) simp_all
  obtain st2 where rl: "?rl rt = Inr st2"
    and fin: "st' = st2\<lparr>already_seen := insert (name b) (already_seen st2)\<rparr>"
  proof (cases "?rl rt")
    case (Inl e)
    then show ?thesis
      using run fresh macho tl by (simp add: unfold del: resolve_loop.simps)
  next
    case (Inr s)
    then show ?thesis
      using run fresh macho tl that by (simp add: unfold del: resolve_loop.simps)
  qed
  have "X \<in> results st2"
    using rl res unfolding rt
    by (auto simp: Let_def split: if_splits parse_result.splits)
  then show ?thesis
    unfolding fin X_def exedir_def by simp
qed

text \<open>
  The root artifact. For a Mach-O binary given to the walk, with the one load command
  \<open>LC_RPATH @loader_path/../lib\<close> and the one reference \<open>@rpath/libfoo.dylib\<close>, which is
  not its own install name, and no dollar sign in its file name or in the sysroot: with
  recursion off the walk returns exactly one path, \<open>../lib/libfoo.dylib\<close> under the
  binary's own directory when that file exists, otherwise \<open>usr/lib/libfoo.dylib\<close> under
  the sysroot when that exists, otherwise the reference \<open>$RPATH/libfoo.dylib\<close> unchanged.
  With any fuel and with recursion on or off, a walk that returns has that path in its
  result.
\<close>

lemma macho_rpath_loader_path_root:
  assumes parsed: "lief_parse w filename = Returns (Some b)"
    and macho: "format b = MACHO"
    and has: "has_rpath b"
    and lc: "lc_rpaths_of (commands b) = [''@loader_path/../lib'']"
    and notself: "\<forall>n \<in> set (id_dylibs_of (commands b)). \<not> suffix n ''@rpath/libfoo.dylib''"
    and libs: "libraries b = [''@rpath/libfoo.dylib'']"
    and nonempty: "filename \<noteq> []"
    and nd_file: "CHR ''$'' \<notin> set filename"
    and nd_sysroot: "CHR ''$'' \<notin> set sysroot"
    and fuel: "4 \<le> fuel"
  shows "(let resolved =
             (if path_exists w (dirname filename @ ''/../lib/libfoo.dylib'')
              then dirname filename @ ''/../lib/libfoo.dylib''
              else if path_exists w (sysroot @ ''usr/lib/libfoo.dylib'')
              then sysroot @ ''usr/lib/libfoo.dylib''
              else ''$RPATH/libfoo.dylib'')
          in inspect_linkages_lief fuel w filename True False sysroot envroot
               = Some (Inr {resolved})
           \<and> (\<forall>fuel' recurse S.
                 inspect_linkages_lief fuel' w filename True recurse sysroot envroot
                   = Some (Inr S) \<longrightarrow> resolved \<in> S))"
proof -
  define exedir where "exedir = dirname filename"
  define X where "X = (if path_exists w (exedir @ ''/../lib/libfoo.dylib'')
                then exedir @ ''/../lib/libfoo.dylib''
                else if path_exists w (sysroot @ ''usr/lib/libfoo.dylib'')
                then sysroot @ ''usr/lib/libfoo.dylib''
                else ''$RPATH/libfoo.dylib'')"
  define n where "n = fuel - 4"
  have n: "fuel = Suc (Suc (Suc (Suc n)))"
    using fuel unfolding n_def by arith
  have nd_exedir: "CHR ''$'' \<notin> set exedir"
    using nd_file set_dirname unfolding exedir_def by blast
  note key = macho_key[OF macho]
  note own = macho_own_rpaths[OF macho has lc]
  note refs = macho_references[OF macho has notself libs]
  have neq: "filename \<noteq> ''$RPATH/libfoo.dylib''"
    using nd_file by auto
  have orig: "these_orig_of b [''$RPATH/libfoo.dylib''] = [''$RPATH/libfoo.dylib'']"
    by (simp add: these_orig_of_def)
  have res: "fst (get_resolved_location w b ''$RPATH/libfoo.dylib'' exedir exedir
                [''$SELFDIR/../lib''] [] (default_paths_of b) sysroot None) = X"
    unfolding X_def using macho nd_exedir nd_sysroot by (rule macho_resolved)
  have "walk fuel w filename True False sysroot envroot = Some (Inr
          \<lparr>todo = [], already_seen = {name b}, results = {X},
           rpaths_by_binary = [filename \<mapsto> [''$SELFDIR/../lib'']],
           parents_by_filename = [filename \<mapsto> None, X \<mapsto> Some filename]\<rparr>)"
    using parsed macho nonempty
    by (simp add: walk_def n process_element_def key own refs neq orig res
          exedir_def[symmetric] Let_def)
  then have exact: "inspect_linkages_lief fuel w filename True False sysroot envroot
                      = Some (Inr {X})"
    by (simp add: inspect_linkages_lief_def)
  have member: "X \<in> S"
    if ret: "inspect_linkages_lief fuel' w filename True recurse sysroot envroot = Some (Inr S)"
    for fuel' recurse S
  proof -
    let ?st0 = "\<lparr>todo = [(filename, Some b)], already_seen = {}, results = {},
                 rpaths_by_binary = Map.empty,
                 parents_by_filename = [filename \<mapsto> None]\<rparr>"
    have "map_option (map_sum id results)
            (while_loop fuel' w exedir (default_paths_of b) True recurse sysroot envroot ?st0)
          = Some (Inr S)"
      using ret parsed by (simp add: inspect_linkages_lief_def walk_def exedir_def)
    then obtain z where z: "while_loop fuel' w exedir (default_paths_of b) True recurse
                              sysroot envroot ?st0 = Some z"
      and zS: "map_sum id results z = Inr S"
      by auto
    obtain st where wl: "while_loop fuel' w exedir (default_paths_of b) True recurse sysroot
                           envroot ?st0 = Some (Inr st)"
      and S: "S = results st"
      using z zS by (cases z) auto
    obtain k where k: "fuel' = Suc k"
      using wl by (cases fuel') simp_all
    obtain st1 where
      fl: "for_loop k w exedir (default_paths_of b) True recurse sysroot envroot 0 ?st0
             = Some (Inr st1)"
      and wl1: "while_loop k w exedir (default_paths_of b) True recurse sysroot envroot st1
             = Some (Inr st)"
      using wl unfolding k by (auto split: option.splits sum.splits)
    obtain m where m: "k = Suc m"
      using fl by (cases k) simp_all
    obtain st2 where
      pe: "process_element m w exedir (default_paths_of b) True recurse sysroot envroot
             (filename, Some b) (?st0\<lparr>todo := []\<rparr>) = Some (Inr st2)"
      and fl1: "for_loop m w exedir (default_paths_of b) True recurse sysroot envroot
             (Suc 0) st2 = Some (Inr st1)"
      using fl unfolding m by (auto simp: Let_def split: option.splits sum.splits)
    have "X \<in> results st2"
      unfolding X_def exedir_def
      using macho has lc notself libs nonempty nd_file nd_sysroot
      by (rule macho_root_first_step[where st = "?st0\<lparr>todo := []\<rparr>"])
         (use pe in \<open>simp_all add: exedir_def\<close>)
    then show ?thesis
      using for_loop_results_mono[OF fl1] while_loop_results_mono[OF wl1] S by blast
  qed
  show ?thesis
    using exact member unfolding X_def exedir_def Let_def by blast
qed

lemma macho_rpath_loader_path_root_example:
  "lief_parse loader_world ''/app/bin/prog''
     = Returns (Some (macho_binary ''/app/bin/prog'' [''@rpath/libfoo.dylib'']
                        [LC_RPATH ''@loader_path/../lib'']))
   \<and> dirname ''/app/bin/prog'' = ''/app/bin''
   \<and> path_exists loader_world ''/app/bin/../lib/libfoo.dylib''
   \<and> inspect_linkages_lief 4 loader_world ''/app/bin/prog'' True False [] []
       = Some (Inr {''/app/bin/../lib/libfoo.dylib''})"
proof -
  let ?b = "macho_binary ''/app/bin/prog'' [''@rpath/libfoo.dylib'']
              [LC_RPATH ''@loader_path/../lib'']"
  have h1: "lief_parse loader_world ''/app/bin/prog'' = Returns (Some ?b)"
    by (simp add: loader_world_def world_of_def)
  have h2: "format ?b = MACHO" by (simp add: macho_binary_def)
  have h3: "has_rpath ?b" by (simp add: macho_binary_def lc_rpaths_of_def)
  have h4: "lc_rpaths_of (commands ?b) = [''@loader_path/../lib'']"
    by (simp add: macho_binary_def lc_rpaths_of_def)
  have h5: "\<forall>n \<in> set (id_dylibs_of (commands ?b)). \<not> suffix n ''@rpath/libfoo.dylib''"
    by (simp add: macho_binary_def id_dylibs_of_def)
  have h6: "libraries ?b = [''@rpath/libfoo.dylib'']" by (simp add: macho_binary_def)
  have h7: "''/app/bin/prog'' \<noteq> []" by simp
  have h8: "CHR ''$'' \<notin> set ''/app/bin/prog''" by simp
  have h9: "CHR ''$'' \<notin> set []" by simp
  have h10: "4 \<le> (4::nat)" by simp
  have d: "dirname ''/app/bin/prog'' = ''/app/bin''"
    by (simp add: dirname_def str_rstrip_def)
  have e: "path_exists loader_world ''/app/bin/../lib/libfoo.dylib''"
    by (simp add: loader_world_def world_of_def)
  show ?thesis
    using macho_rpath_loader_path_root [OF h1 h2 h3 h4 h5 h6 h7 h8 h9 h10, of "[]"] h1 d e
    by (simp add: Let_def)
qed

text \<open>
  Claim C4. The claim says that \<open>@rpath/libfoo.dylib\<close> with
  \<open>LC_RPATH @loader_path/../lib\<close> resolves to \<open>../lib/libfoo.dylib\<close> beside the
  referencing binary, also for a binary found during the walk. The resolver takes
  \<open>exedir\<close> and \<open>selfdir\<close> apart and \<open>@loader_path\<close> is \<open>$SELFDIR\<close>, but the walker passes
  \<open>exedir\<close>, the root's directory, for both. In \<open>macho_world\<close> the library
  \<open>/opt/lib/libb.dylib\<close> is found during the walk and \<open>libfoo.dylib\<close> exists in \<open>../lib\<close>
  beside it: the walk returns the reference unresolved, while the resolver called with
  that library's own directory as \<open>selfdir\<close> finds the file.
\<close>

theorem macho_transitive_uses_root_directory:
  "path_exists macho_world ''/opt/lib/../lib/libfoo.dylib''
   \<and> dirname ''/opt/lib/libb.dylib'' = ''/opt/lib''
   \<and> dirname ''/app/bin/prog'' = ''/app/bin''
   \<and> inspect_linkages_lief 20 macho_world ''/app/bin/prog'' True True [] []
       = Some (Inr {''$RPATH/libfoo.dylib'', ''/opt/lib/libb.dylib''})
   \<and> get_resolved_location macho_world
         (macho_binary ''/opt/lib/libb.dylib'' [''@rpath/libb.dylib'', ''@rpath/libfoo.dylib'']
            [LC_ID_DYLIB ''@rpath/libb.dylib'', LC_RPATH ''@loader_path/../lib''])
         ''$RPATH/libfoo.dylib'' ''/app/bin'' ''/opt/lib'' [''$SELFDIR/../lib''] []
         [''$SYSROOT/usr/lib''] [] None
       = (''/opt/lib/../lib/libfoo.dylib'', Some ''$SELFDIR/../lib'', PyStr [])"
proof -
  have a: "path_exists macho_world ''/opt/lib/../lib/libfoo.dylib''"
    by (simp add: macho_world_def world_of_def)
  have b: "dirname ''/opt/lib/libb.dylib'' = ''/opt/lib''"
    by (simp add: dirname_def str_rstrip_def)
  have b': "dirname ''/app/bin/prog'' = ''/app/bin''"
    by (simp add: dirname_def str_rstrip_def)
  have c: "inspect_linkages_lief 20 macho_world ''/app/bin/prog'' True True [] []
       = Some (Inr {''$RPATH/libfoo.dylib'', ''/opt/lib/libb.dylib''})"
    by (simp add: macho_world_def walk_defs eval_nat_numeral)
  have d: "get_resolved_location macho_world
         (macho_binary ''/opt/lib/libb.dylib'' [''@rpath/libb.dylib'', ''@rpath/libfoo.dylib'']
            [LC_ID_DYLIB ''@rpath/libb.dylib'', LC_RPATH ''@loader_path/../lib''])
         ''$RPATH/libfoo.dylib'' ''/app/bin'' ''/opt/lib'' [''$SELFDIR/../lib''] []
         [''$SYSROOT/usr/lib''] [] None
       = (''/opt/lib/../lib/libfoo.dylib'', Some ''$SELFDIR/../lib'', PyStr [])"
    by (simp add: macho_world_def world_of_def get_resolved_location_def
          candidate_rpaths_def exists_sysroot_of_def)
  show ?thesis using a b b' c d by simp
qed

text \<open>
  The default paths come after the search paths in the candidate list: in \<open>sdk_world\<close>
  the file is missing beside the program and is found in the SDK's \<open>usr/lib\<close>.
\<close>

lemma macho_default_path_fallback:
  "\<not> path_exists sdk_world ''/app/bin/../lib/libfoo.dylib''
   \<and> inspect_linkages_lief 20 sdk_world ''/app/bin/prog'' True True ''/sdk/'' []
       = Some (Inr {''/sdk/usr/lib/libfoo.dylib''})"
proof -
  have d: "\<not> path_exists sdk_world ''/app/bin/../lib/libfoo.dylib''"
    by (simp add: sdk_world_def world_of_def)
  have e: "inspect_linkages_lief 20 sdk_world ''/app/bin/prog'' True True ''/sdk/'' []
       = Some (Inr {''/sdk/usr/lib/libfoo.dylib''})"
    by (simp add: sdk_world_def walk_defs eval_nat_numeral)
  show ?thesis using d e by simp
qed

end
